theory Spec2Isabelle
  imports Complex_Main
begin

section \<open>Python values and exceptions\<close>

text \<open>
  The layer of \<^verbatim>\<open>src/layers/Conv2D.py\<close> is a Python class over the Keras backend.
  Every exception that the modelled code can raise is a value of \<open>error\<close>; a computation
  that may raise returns \<open>error + 'a\<close> with \<open>Inl\<close> for the exception.
\<close>

datatype error = AssertionError | IndexError | ZeroDivisionError | ValueError | TypeError

text \<open>Sequencing of two computations: the first exception raised ends the evaluation.\<close>

fun and_then :: "error + 'a \<Rightarrow> ('a \<Rightarrow> error + 'b) \<Rightarrow> error + 'b" where
  "and_then (Inl e) f = Inl e"
| "and_then (Inr v) f = f v"

text \<open>
  A dimension of a shape is a Python int or \<^verbatim>\<open>None\<close> (an extent that is not known yet);
  a shape is a tuple of dimensions.
\<close>

type_synonym dim = "int option"

text \<open>
  Subscription \<^verbatim>\<open>t[i]\<close> of a tuple: a negative index counts from the end, an index
  outside the tuple raises \<^verbatim>\<open>IndexError\<close>.
\<close>

definition py_index :: "'a list \<Rightarrow> int \<Rightarrow> error + 'a" where
  "py_index t i =
     (if 0 \<le> i \<and> i < int (length t) then Inr (t ! nat i)
      else if i < 0 \<and> - int (length t) \<le> i then Inr (t ! nat (int (length t) + i))
      else Inl IndexError)"

section \<open>The shape helper of the Keras utilities\<close>

text \<open>
  \<^verbatim>\<open>conv_utils.conv_output_length(input_length, filter_size, padding, stride, dilation)\<close>
  is a function of the Keras library that \<^verbatim>\<open>compute_output_shape\<close> calls on each spatial axis.
  It returns \<^verbatim>\<open>None\<close> for an unknown input length, asserts that the padding is one of the
  four lower-case mode names, and ends in the floor division
  \<^verbatim>\<open>(output_length + stride - 1) // stride\<close>, which raises on a zero stride.
\<close>

definition conv_output_length :: "dim \<Rightarrow> int \<Rightarrow> string \<Rightarrow> int \<Rightarrow> int \<Rightarrow> error + dim" where
  "conv_output_length input_length filter_size padding stride dilation =
     (case input_length of
        None \<Rightarrow> Inr None
      | Some n \<Rightarrow>
          if padding \<notin> set [''same'', ''valid'', ''full'', ''causal''] then Inl AssertionError
          else
            let dilated_filter_size = filter_size + (filter_size - 1) * (dilation - 1);
                output_length =
                  (if padding \<in> set [''same'', ''causal''] then n
                   else if padding = ''valid'' then n - dilated_filter_size + 1
                   else n + dilated_filter_size - 1)
            in if stride = 0 then Inl ZeroDivisionError
               else Inr (Some ((output_length + stride - 1) div stride)))"

section \<open>Tensors and the numeric backend\<close>

text \<open>
  A tensor of the numeric backend: its shape and its elements in row-major order. The
  element type is a parameter; the development uses no law of its arithmetic.
\<close>

record 'a tensor =
  shape :: "nat list"
  elems :: "'a list"

text \<open>The element at a position of a rank-4 tensor, and the rank-4 tensor of a function.\<close>

definition at4 :: "'a tensor \<Rightarrow> nat \<Rightarrow> nat \<Rightarrow> nat \<Rightarrow> nat \<Rightarrow> 'a" where
  "at4 t a b c d =
     elems t ! (((a * (shape t ! 1) + b) * (shape t ! 2) + c) * (shape t ! 3) + d)"

definition tabulate4 ::
  "nat \<Rightarrow> nat \<Rightarrow> nat \<Rightarrow> nat \<Rightarrow> (nat \<Rightarrow> nat \<Rightarrow> nat \<Rightarrow> nat \<Rightarrow> 'a) \<Rightarrow> 'a tensor" where
  "tabulate4 n0 n1 n2 n3 f =
     \<lparr>shape = [n0, n1, n2, n3],
      elems = [f a b c d. a \<leftarrow> [0..<n0], b \<leftarrow> [0..<n1], c \<leftarrow> [0..<n2], d \<leftarrow> [0..<n3]]\<rparr>"

text \<open>\<^verbatim>\<open>K.image_data_format()\<close>, the process-wide layout setting.\<close>

datatype data_format = ChannelsFirst | ChannelsLast

text \<open>The two transpositions between (batch, channels, height, width) and
  (batch, height, width, channels).\<close>

definition to_channels_last :: "'a tensor \<Rightarrow> 'a tensor" where
  "to_channels_last t =
     tabulate4 (shape t ! 0) (shape t ! 2) (shape t ! 3) (shape t ! 1)
       (\<lambda>b i j c. at4 t b c i j)"

definition to_channels_first :: "'a tensor \<Rightarrow> 'a tensor" where
  "to_channels_first t =
     tabulate4 (shape t ! 0) (shape t ! 3) (shape t ! 1) (shape t ! 2)
       (\<lambda>b c i j. at4 t b i j c)"

text \<open>
  The extent of the backend's convolution output on one axis, on concrete tensors, for an
  input extent \<open>n\<close>, a window of \<open>k\<close> taps spaced \<open>d\<close> apart and a step \<open>s\<close>. Under
  \<^verbatim>\<open>same\<close> padding it is \<open>ceil(n / s)\<close>. Under \<^verbatim>\<open>valid\<close> padding the backend divides
  \<open>n - ((k - 1) * d + 1) + s\<close> by \<open>s\<close>, rounding towards zero, and raises only when the
  quotient is negative: an input that is shorter than the window by less than two steps
  gives the empty extent 0.
\<close>

definition window_out :: "string \<Rightarrow> nat \<Rightarrow> nat \<Rightarrow> nat \<Rightarrow> nat \<Rightarrow> error + nat" where
  "window_out padding n k s d =
     (if padding = ''same'' then Inr ((n + s - 1) div s)
      else if n + 2 * s \<le> (k - 1) * d + 1 then Inl ValueError
      else Inr ((n + s - ((k - 1) * d + 1)) div s))"

text \<open>The zeros that \<^verbatim>\<open>same\<close> padding puts before the input on one axis.\<close>

definition pad_before :: "string \<Rightarrow> nat \<Rightarrow> nat \<Rightarrow> nat \<Rightarrow> nat \<Rightarrow> nat" where
  "pad_before padding n k s d =
     (if padding = ''same''
      then ((((n + s - 1) div s - 1) * s + ((k - 1) * d + 1)) - n) div 2
      else 0)"

text \<open>An element of the zero-padded input.\<close>

definition padded_at :: "'a::zero tensor \<Rightarrow> nat \<Rightarrow> nat \<Rightarrow> nat \<Rightarrow> nat \<Rightarrow> nat \<Rightarrow> nat \<Rightarrow> 'a" where
  "padded_at x pt pl b i j c =
     (if pt \<le> i \<and> i - pt < shape x ! 1 \<and> pl \<le> j \<and> j - pl < shape x ! 2
      then at4 x b (i - pt) (j - pl) c else 0)"

text \<open>
  The cross-correlation of a (batch, height, width, channels) input with a
  (height, width, in, out) kernel. The products of a window are summed in the order of
  the kernel's elements. When the input has \<open>g\<close> times the kernel's input channels, the
  convolution is grouped: the output channels are split into \<open>g\<close> groups of equal size,
  and group number \<open>i\<close> reads the input channels from \<open>i * in\<close> on. A kernel without
  output channels gives an empty tensor. The backend rejects a kernel without taps or
  without input channels, a channel count of the input that is no positive multiple of
  the kernel's, a number of output channels that the groups do not divide, a stride or
  dilation that is not positive, and a padding that is neither \<^verbatim>\<open>same\<close> nor
  \<^verbatim>\<open>valid\<close>.
\<close>

definition conv2d_channels_last ::
  "'a::{zero,plus,times} tensor \<Rightarrow> 'a tensor \<Rightarrow> int \<times> int \<Rightarrow> string \<Rightarrow> int \<times> int
     \<Rightarrow> error + 'a tensor" where
  "conv2d_channels_last x kern strides padding dilation_rate =
     (let kh = shape kern ! 0; kw = shape kern ! 1; ci = shape kern ! 2;
          filters_out = shape kern ! 3; groups = shape x ! 3 div ci
      in
      if kh = 0 \<or> kw = 0 \<or> ci = 0 then Inl ValueError
      else if shape x ! 3 mod ci \<noteq> 0 \<or> groups = 0 \<or> filters_out mod groups \<noteq> 0
        then Inl ValueError
      else if fst strides \<le> 0 \<or> snd strides \<le> 0
              \<or> fst dilation_rate \<le> 0 \<or> snd dilation_rate \<le> 0 then Inl ValueError
      else if padding \<notin> set [''same'', ''valid''] then Inl ValueError
      else
        let sh = nat (fst strides); sw = nat (snd strides);
            dh = nat (fst dilation_rate); dw = nat (snd dilation_rate);
            pt = pad_before padding (shape x ! 1) kh sh dh;
            pl = pad_before padding (shape x ! 2) kw sw dw
        in
        and_then (window_out padding (shape x ! 1) kh sh dh) (\<lambda>oh.
        and_then (window_out padding (shape x ! 2) kw sw dw) (\<lambda>ow.
        Inr (tabulate4 (shape x ! 0) oh ow filters_out
               (\<lambda>b i j f.
                  foldl (+) 0
                    [padded_at x pt pl b (i * sh + di * dh) (j * sw + dj * dw)
                         (f div (filters_out div groups) * ci + c)
                       * at4 kern di dj c f.
                     di \<leftarrow> [0..<kh], dj \<leftarrow> [0..<kw], c \<leftarrow> [0..<ci]])))))"

text \<open>
  \<^verbatim>\<open>K.conv2d(x, kernel, strides=(1, 1), padding='valid', data_format=None,
  dilation_rate=(1, 1))\<close> on concrete tensors, for a kernel of rank 4, which is what
  \<^verbatim>\<open>build\<close> creates. An omitted data format is the process-wide one, which is the
  parameter \<open>data_format\<close> here. The kernel always has the layout
  (height, width, in, out). Under the channels-last layout an input of a rank above 4
  has several batch axes: the backend folds them into one, convolves, and unfolds them
  again. Under the channels-first layout the input is transposed, which needs rank 4.
\<close>

definition conv2d ::
  "'a::{zero,plus,times} tensor \<Rightarrow> 'a tensor \<Rightarrow> int \<times> int \<Rightarrow> string \<Rightarrow> data_format
     \<Rightarrow> int \<times> int \<Rightarrow> error + 'a tensor" where
  "conv2d x kern strides padding data_format dilation_rate =
     (if length (shape kern) \<noteq> 4 then Inl ValueError
      else case data_format of
        ChannelsLast \<Rightarrow>
          if length (shape x) < 4 then Inl ValueError
          else
            let batch_axes = length (shape x) - 3;
                folded = x\<lparr>shape := prod_list (take batch_axes (shape x))
                                      # drop batch_axes (shape x)\<rparr>
            in
            and_then (conv2d_channels_last folded kern strides padding dilation_rate)
              (\<lambda>y. Inr (y\<lparr>shape := take batch_axes (shape x) @ tl (shape y)\<rparr>))
      | ChannelsFirst \<Rightarrow>
          if length (shape x) \<noteq> 4 then Inl ValueError
          else
            and_then
              (conv2d_channels_last (to_channels_last x) kern strides padding dilation_rate)
              (\<lambda>y. Inr (to_channels_first y)))"

text \<open>
  \<^verbatim>\<open>K.bias_add(x, bias, data_format=None)\<close> for a bias vector, the case that the layer
  reaches: the bias is added along the channel axis of the layout, the last axis or
  axis 1, whatever the rank of \<open>x\<close> is.
\<close>

definition bias_add :: "'a::plus tensor \<Rightarrow> 'a tensor \<Rightarrow> data_format \<Rightarrow> error + 'a tensor" where
  "bias_add x bias data_format =
     (if length (shape bias) \<noteq> 1 then Inl ValueError
      else case data_format of
        ChannelsLast \<Rightarrow>
          if length (shape x) < 2 \<or> last (shape x) \<noteq> shape bias ! 0 then Inl ValueError
          else Inr (x\<lparr>elems :=
                       map (\<lambda>i. elems x ! i + elems bias ! (i mod last (shape x)))
                         [0..<length (elems x)]\<rparr>)
      | ChannelsFirst \<Rightarrow>
          if length (shape x) < 3 \<or> shape x ! 1 \<noteq> shape bias ! 0 then Inl ValueError
          else Inr (x\<lparr>elems :=
                       map (\<lambda>i. elems x ! i
                                + elems bias ! (i div prod_list (drop 2 (shape x)) mod (shape x ! 1)))
                         [0..<length (elems x)]\<rparr>))"

section \<open>Activations\<close>

text \<open>
  The \<^verbatim>\<open>activation\<close> argument of the constructor: \<^verbatim>\<open>None\<close>, a name, or a callable.
  \<^verbatim>\<open>activations.get\<close> resolves a name in the library's table of activations, which is the
  parameter \<open>table\<close>, and returns a callable as it is.
\<close>

datatype 'a activation_id =
  ActNone | ActName string | ActCallable "'a tensor \<Rightarrow> 'a tensor"

definition activations_get ::
  "(string \<rightharpoonup> ('a tensor \<Rightarrow> 'a tensor)) \<Rightarrow> 'a activation_id
     \<Rightarrow> error + ('a tensor \<Rightarrow> 'a tensor)" where
  "activations_get table identifier =
     (case identifier of
        ActNone \<Rightarrow> Inr (\<lambda>t. t)
      | ActName name \<Rightarrow> (case table name of None \<Rightarrow> Inl ValueError | Some f \<Rightarrow> Inr f)
      | ActCallable f \<Rightarrow> Inr f)"

text \<open>
  An excerpt of the library's table: the two entries that can be written over any
  ordered element type. The table is a parameter of the constructor, so that a layer
  with any other activation of the library is constructed with a table that holds it.
\<close>

definition relu :: "'a::{zero,linorder} tensor \<Rightarrow> 'a tensor" where
  "relu t = t\<lparr>elems := map (\<lambda>v. max v 0) (elems t)\<rparr>"

definition keras_activations :: "string \<rightharpoonup> ('a::{zero,linorder} tensor \<Rightarrow> 'a tensor)" where
  "keras_activations = [''relu'' \<mapsto> relu, ''linear'' \<mapsto> (\<lambda>t. t)]"

section \<open>The layer\<close>

datatype initializer = Zeros | GlorotUniform

text \<open>
  A weight that \<^verbatim>\<open>add_weight\<close> created: name, shape, initializer, trainable, and the
  tensor it holds.
\<close>

record 'a weight_spec =
  w_name :: string
  w_shape :: "nat list"
  w_initializer :: initializer
  w_trainable :: bool
  w_value :: "'a tensor"

text \<open>
  The attributes that \<^verbatim>\<open>Conv2D.__init__\<close> sets, with \<open>weights\<close> and \<open>built\<close> of the
  base class \<^verbatim>\<open>Layer\<close>. The three pairs are typed as the signature annotates them; an
  activation is a function on tensors.
\<close>

record 'a Conv2D =
  filters :: int
  bias :: "'a tensor option"
  kernel_size :: "int \<times> int"
  kernel :: "'a tensor option"
  strides :: "int \<times> int"
  padding :: string
  activation :: "('a tensor \<Rightarrow> 'a tensor) option"
  dilation_rate :: "int \<times> int"
  batch_size :: int
  channel_axis :: int
  weights :: "'a weight_spec list"
  built :: bool

subsection \<open>The constructor\<close>

text \<open>
  \<^verbatim>\<open>__init__\<close> stores its arguments. The only step that can raise is the resolution of the
  activation. Keyword arguments of the base class are not part of the model.
\<close>

definition Conv2D_init ::
  "(string \<rightharpoonup> ('a tensor \<Rightarrow> 'a tensor)) \<Rightarrow> data_format \<Rightarrow> int \<Rightarrow> int \<times> int \<Rightarrow> int \<times> int
     \<Rightarrow> string \<Rightarrow> 'a activation_id \<Rightarrow> int \<times> int \<Rightarrow> int \<Rightarrow> error + 'a Conv2D" where
  "Conv2D_init table image_data_format filters' kernel_size' strides' padding' activation'
       dilation_rate' batch_size' =
     and_then
       (case activation' of
          ActNone \<Rightarrow> Inr None
        | _ \<Rightarrow> and_then (activations_get table activation') (\<lambda>f. Inr (Some f)))
       (\<lambda>act.
          Inr \<lparr>filters = filters', bias = None, kernel_size = kernel_size', kernel = None,
               strides = strides', padding = padding', activation = act,
               dilation_rate = dilation_rate', batch_size = batch_size',
               channel_axis = (if image_data_format = ChannelsFirst then 0 else - 1),
               weights = [], built = False\<rparr>)"

text \<open>The default of the \<^verbatim>\<open>activation\<close> parameter, used when the caller supplies none.\<close>

definition default_activation :: "'a activation_id" where
  "default_activation = ActName ''relu''"

text \<open>\<^verbatim>\<open>Conv2D()\<close>: every parameter at its default.\<close>

definition Conv2D_default ::
  "(string \<rightharpoonup> ('a tensor \<Rightarrow> 'a tensor)) \<Rightarrow> data_format \<Rightarrow> error + 'a Conv2D" where
  "Conv2D_default table image_data_format =
     Conv2D_init table image_data_format 32 (3, 3) (1, 1) ''VALID'' default_activation (1, 1) 1"

subsection \<open>build\<close>

text \<open>
  \<^verbatim>\<open>add_weight\<close> of the base class creates a tensor of a concrete shape and appends it to
  the weights of the layer. A negative dimension is rejected when the shape is formed;
  an unknown dimension makes the initializer raise \<^verbatim>\<open>TypeError\<close>. The random draws of
  the Glorot initializer are the parameter \<open>rng\<close>.
\<close>

definition concrete_shape :: "dim list \<Rightarrow> error + nat list" where
  "concrete_shape ds =
     (if list_ex (\<lambda>d. case d of None \<Rightarrow> False | Some n \<Rightarrow> n < 0) ds then Inl ValueError
      else if list_ex (\<lambda>d. d = None) ds then Inl TypeError
      else Inr (map (\<lambda>d. case d of None \<Rightarrow> 0 | Some n \<Rightarrow> nat n) ds))"

definition initial_value :: "(nat \<Rightarrow> 'a) \<Rightarrow> initializer \<Rightarrow> nat list \<Rightarrow> 'a::zero tensor" where
  "initial_value rng init ns =
     \<lparr>shape = ns,
      elems = (case init of
                 Zeros \<Rightarrow> replicate (prod_list ns) 0
               | GlorotUniform \<Rightarrow> map rng [0..<prod_list ns])\<rparr>"

definition add_weight ::
  "(nat \<Rightarrow> 'a) \<Rightarrow> 'a::zero Conv2D \<Rightarrow> string \<Rightarrow> dim list \<Rightarrow> initializer \<Rightarrow> bool
     \<Rightarrow> error + ('a weight_spec \<times> 'a Conv2D)" where
  "add_weight rng self name shp init trainable =
     and_then (concrete_shape shp) (\<lambda>ns.
       let w = \<lparr>w_name = name, w_shape = ns, w_initializer = init, w_trainable = trainable,
                w_value = initial_value rng init ns\<rparr>
       in Inr (w, self\<lparr>weights := weights self @ [w]\<rparr>))"

text \<open>
  Assigning a weight to an attribute of a layer: the base class drops the weight that
  the attribute held before from the weights of the layer, and adds the new one unless
  it is there already. So a second \<^verbatim>\<open>build\<close> replaces the two weights of the first.
\<close>

definition untrack :: "'a tensor option \<Rightarrow> 'a weight_spec list \<Rightarrow> 'a weight_spec list" where
  "untrack old ws = (case old of None \<Rightarrow> ws | Some t \<Rightarrow> filter (\<lambda>w. w_value w \<noteq> t) ws)"

definition track :: "'a weight_spec \<Rightarrow> 'a weight_spec list \<Rightarrow> 'a weight_spec list" where
  "track w ws = (if w \<in> set ws then ws else ws @ [w])"

definition set_bias :: "'a Conv2D \<Rightarrow> 'a weight_spec \<Rightarrow> 'a Conv2D" where
  "set_bias self w =
     self\<lparr>bias := Some (w_value w), weights := track w (untrack (bias self) (weights self))\<rparr>"

definition set_kernel :: "'a Conv2D \<Rightarrow> 'a weight_spec \<Rightarrow> 'a Conv2D" where
  "set_kernel self w =
     self\<lparr>kernel := Some (w_value w),
          weights := track w (untrack (kernel self) (weights self))\<rparr>"

text \<open>
  \<^verbatim>\<open>build\<close> reads the channel count at \<open>channel_axis\<close>, creates the bias, then the
  kernel, and marks the layer as built. An exception of the second \<^verbatim>\<open>add_weight\<close>
  leaves the bias behind in the Python object; the model returns the exception alone.
\<close>

definition build :: "(nat \<Rightarrow> 'a) \<Rightarrow> 'a::zero Conv2D \<Rightarrow> dim list \<Rightarrow> error + 'a Conv2D" where
  "build rng self input_shape =
     and_then (py_index input_shape (channel_axis self)) (\<lambda>c.
     let kernel_shape =
           [Some (fst (kernel_size self)), Some (snd (kernel_size self)), c,
            Some (filters self)]
     in
     and_then (add_weight rng self ''conv_bias'' [Some (filters self)] Zeros True)
       (\<lambda>(b, self1).
     and_then (add_weight rng (set_bias self1 b) ''kernel'' kernel_shape GlorotUniform True)
       (\<lambda>(k, self2).
     Inr ((set_kernel self2 k)\<lparr>built := True\<rparr>))))"

subsection \<open>call\<close>

text \<open>
  \<^verbatim>\<open>call\<close> passes only \<open>x\<close> and the kernel to \<^verbatim>\<open>conv2d\<close>, so the backend's defaults
  apply. A layer that has no kernel or no bias yet makes the backend raise.
\<close>

definition call :: "data_format \<Rightarrow> 'a::{zero,plus,times} Conv2D \<Rightarrow> 'a tensor \<Rightarrow> error + 'a tensor" where
  "call image_data_format self x =
     (case kernel self of
        None \<Rightarrow> Inl ValueError
      | Some k \<Rightarrow>
          and_then (conv2d x k (1, 1) ''valid'' image_data_format (1, 1)) (\<lambda>y.
          (case bias self of
             None \<Rightarrow> Inl ValueError
           | Some b \<Rightarrow>
               and_then (bias_add y b image_data_format) (\<lambda>y.
               (case activation self of None \<Rightarrow> Inr y | Some f \<Rightarrow> Inr (f y))))))"

subsection \<open>compute_output_shape\<close>

definition compute_output_shape :: "'a Conv2D \<Rightarrow> dim list \<Rightarrow> error + dim list" where
  "compute_output_shape self input_shape =
     and_then (py_index input_shape 0) (\<lambda>batch_size.
     and_then (py_index input_shape 1) (\<lambda>h.
     and_then (conv_output_length h (fst (kernel_size self)) (padding self)
                 (fst (strides self)) (fst (dilation_rate self))) (\<lambda>convX.
     and_then (py_index input_shape 2) (\<lambda>w.
     and_then (conv_output_length w (snd (kernel_size self)) (padding self)
                 (snd (strides self)) (snd (dilation_rate self))) (\<lambda>convY.
     Inr [batch_size, convX, convY, Some (filters self)])))))"

subsection \<open>get_config and from_config\<close>

text \<open>
  A value of the configuration dictionary. \<^verbatim>\<open>get_config\<close> updates the dictionary of the
  base class, the parameter \<open>base\<close>, with the seven entries of the layer; the
  \<^verbatim>\<open>activation\<close> entry is the attribute itself.
\<close>

datatype 'a config_value =
  VInt int | VPair "int \<times> int" | VStr string | VNone | VFunction "'a tensor \<Rightarrow> 'a tensor"

definition get_config ::
  "(string \<rightharpoonup> 'a config_value) \<Rightarrow> 'a Conv2D \<Rightarrow> (string \<rightharpoonup> 'a config_value)" where
  "get_config base self =
     base ++
     [''filters'' \<mapsto> VInt (filters self),
      ''kernel_size'' \<mapsto> VPair (kernel_size self),
      ''strides'' \<mapsto> VPair (strides self),
      ''padding'' \<mapsto> VStr (padding self),
      ''activation'' \<mapsto> (case activation self of None \<Rightarrow> VNone | Some f \<Rightarrow> VFunction f),
      ''dilation_rate'' \<mapsto> VPair (dilation_rate self),
      ''batch_size'' \<mapsto> VInt (batch_size self)]"

text \<open>
  \<^verbatim>\<open>from_config\<close> is inherited from the base class: it calls the constructor with the
  entries of the dictionary as keyword arguments, so a parameter without an entry takes
  its default, and it raises \<^verbatim>\<open>TypeError\<close> in place of any exception of the
  constructor. An entry whose value is not of the parameter's annotated type cannot be
  stored in the typed layer: the model has no layer for it and answers \<^verbatim>\<open>TypeError\<close>.
\<close>

definition arg_int :: "(string \<rightharpoonup> 'a config_value) \<Rightarrow> string \<Rightarrow> int \<Rightarrow> error + int" where
  "arg_int config key dflt =
     (case config key of None \<Rightarrow> Inr dflt | Some (VInt n) \<Rightarrow> Inr n | Some _ \<Rightarrow> Inl TypeError)"

definition arg_pair ::
  "(string \<rightharpoonup> 'a config_value) \<Rightarrow> string \<Rightarrow> int \<times> int \<Rightarrow> error + int \<times> int" where
  "arg_pair config key dflt =
     (case config key of None \<Rightarrow> Inr dflt | Some (VPair p) \<Rightarrow> Inr p | Some _ \<Rightarrow> Inl TypeError)"

definition arg_str :: "(string \<rightharpoonup> 'a config_value) \<Rightarrow> string \<Rightarrow> string \<Rightarrow> error + string" where
  "arg_str config key dflt =
     (case config key of None \<Rightarrow> Inr dflt | Some (VStr s) \<Rightarrow> Inr s | Some _ \<Rightarrow> Inl TypeError)"

definition arg_activation ::
  "(string \<rightharpoonup> 'a config_value) \<Rightarrow> string \<Rightarrow> error + 'a activation_id" where
  "arg_activation config key =
     (case config key of
        None \<Rightarrow> Inr default_activation
      | Some VNone \<Rightarrow> Inr ActNone
      | Some (VStr s) \<Rightarrow> Inr (ActName s)
      | Some (VFunction f) \<Rightarrow> Inr (ActCallable f)
      | Some _ \<Rightarrow> Inl TypeError)"

definition from_config ::
  "(string \<rightharpoonup> ('a tensor \<Rightarrow> 'a tensor)) \<Rightarrow> data_format \<Rightarrow> (string \<rightharpoonup> 'a config_value)
     \<Rightarrow> error + 'a Conv2D" where
  "from_config table image_data_format config =
     and_then (arg_int config ''filters'' 32) (\<lambda>f.
     and_then (arg_pair config ''kernel_size'' (3, 3)) (\<lambda>ks.
     and_then (arg_pair config ''strides'' (1, 1)) (\<lambda>st.
     and_then (arg_str config ''padding'' ''VALID'') (\<lambda>p.
     and_then (arg_activation config ''activation'') (\<lambda>a.
     and_then (arg_pair config ''dilation_rate'' (1, 1)) (\<lambda>dr.
     and_then (arg_int config ''batch_size'' 1) (\<lambda>bs.
     case Conv2D_init table image_data_format f ks st p a dr bs of
       Inl e \<Rightarrow> Inl TypeError
     | Inr layer \<Rightarrow> Inr layer)))))))"

section \<open>Concrete layers and inputs\<close>

text \<open>
  The unbuilt layer that the constructor yields for an activation of \<^verbatim>\<open>None\<close> under the
  channels-last layout, over integer elements.
\<close>

definition unbuilt_layer ::
  "int \<Rightarrow> int \<times> int \<Rightarrow> int \<times> int \<Rightarrow> string \<Rightarrow> int \<times> int \<Rightarrow> int Conv2D" where
  "unbuilt_layer f ks st p dr =
     \<lparr>filters = f, bias = None, kernel_size = ks, kernel = None, strides = st, padding = p,
      activation = None, dilation_rate = dr, batch_size = 1, channel_axis = - 1,
      weights = [], built = False\<rparr>"

text \<open>
  A built layer with one filter and a (3, 3) kernel of ones, as \<^verbatim>\<open>build\<close> yields it on
  one input channel when every draw of the initializer is 1, and a square input with
  the entries 0, -1, -2, ...
\<close>

definition ones_kernel :: "int tensor" where
  "ones_kernel = \<lparr>shape = [3, 3, 1, 1], elems = replicate 9 1\<rparr>"

definition zero_bias :: "int tensor" where
  "zero_bias = \<lparr>shape = [1], elems = [0]\<rparr>"

definition built_layer :: "int \<times> int \<Rightarrow> string \<Rightarrow> int \<times> int \<Rightarrow> int Conv2D" where
  "built_layer st p dr =
     (unbuilt_layer 1 (3, 3) st p dr)
       \<lparr>bias := Some zero_bias, kernel := Some ones_kernel,
        weights :=
          [\<lparr>w_name = ''conv_bias'', w_shape = [1], w_initializer = Zeros, w_trainable = True,
            w_value = zero_bias\<rparr>,
           \<lparr>w_name = ''kernel'', w_shape = [3, 3, 1, 1], w_initializer = GlorotUniform,
            w_trainable = True, w_value = ones_kernel\<rparr>],
        built := True\<rparr>"

definition ramp :: "nat \<Rightarrow> int tensor" where
  "ramp n = tabulate4 1 n n 1 (\<lambda>b i j c. - int (i * n + j))"

section \<open>Arithmetic of floor and ceiling division\<close>

lemma div_shift: "(s::int) \<noteq> 0 \<Longrightarrow> (x + s) div s = x div s + 1"
  by simp

lemma ceil_div_int:
  assumes "(s::int) > 0"
  shows "(n + s - 1) div s = - ((- n) div s)"
proof -
  define q where "q = n div s"
  define r where "r = n mod s"
  have n: "n = s * q + r" by (simp add: q_def r_def)
  have r: "0 \<le> r" "r < s" using assms by (simp_all add: r_def)
  show ?thesis
  proof (cases "r = 0")
    case True
    have a: "n + s - 1 = s * q + (s - 1)" using n True by simp
    have "(n + s - 1) div s = (s * q + (s - 1)) div s" by (simp only: a)
    also have "\<dots> = q + (s - 1) div s" using assms by simp
    also have "\<dots> = q" using assms by simp
    finally have L: "(n + s - 1) div s = q" .
    have "- n = s * (- q)" using n True by simp
    then have "- n div s = (s * (- q)) div s" by (simp only:)
    also have "\<dots> = - q" using assms by (simp only: nonzero_mult_div_cancel_left)
    finally have R: "- n div s = - q" .
    show ?thesis unfolding L R by simp
  next
    case False
    have a: "n + s - 1 = s * (q + 1) + (r - 1)" using n by (simp add: algebra_simps)
    have "(n + s - 1) div s = (s * (q + 1) + (r - 1)) div s" by (simp only: a)
    also have "\<dots> = (q + 1) + (r - 1) div s"
      by (rule div_mult_self4) (use assms in simp)
    also have "\<dots> = q + 1" using r False by simp
    finally have L: "(n + s - 1) div s = q + 1" .
    have R: "- n div s = - q - 1"
      using assms False by (simp add: zdiv_zminus1_eq_if q_def r_def)
    show ?thesis unfolding L R by simp
  qed
qed

lemma ceil_div:
  "(s::int) > 0 \<Longrightarrow> (n + s - 1) div s = \<lceil>real_of_int n / real_of_int s\<rceil>"
  by (simp only: ceil_div_int ceiling_divide_eq_div)

lemma floor_div: "\<lfloor>real_of_int a / real_of_int s\<rfloor> = a div s"
  by (rule floor_divide_of_int_eq)

section \<open>The shape helper on a known length\<close>

lemma conv_output_length_valid:
  assumes "stride \<noteq> 0"
  shows "conv_output_length (Some n) k ''valid'' stride d =
           Inr (Some ((n - (k - 1) * d - 1) div stride + 1))"
proof -
  have e: "n - (k + (k - 1) * (d - 1)) + 1 + stride - 1 = (n - (k - 1) * d - 1) + stride"
    by (simp add: algebra_simps)
  have "(n - (k + (k - 1) * (d - 1)) + 1 + stride - 1) div stride
          = (n - (k - 1) * d - 1) div stride + 1"
    unfolding e using assms by (rule div_shift)
  moreover have "conv_output_length (Some n) k ''valid'' stride d =
          Inr (Some ((n - (k + (k - 1) * (d - 1)) + 1 + stride - 1) div stride))"
    unfolding conv_output_length_def Let_def using assms by simp
  ultimately show ?thesis by (simp only:)
qed

lemma conv_output_length_same:
  assumes "stride \<noteq> 0"
  shows "conv_output_length (Some n) k ''same'' stride d =
           Inr (Some ((n + stride - 1) div stride))"
  using assms by (simp add: conv_output_length_def Let_def)

lemma compute_output_shape_4d:
  assumes "conv_output_length h (fst (kernel_size self)) (padding self)
             (fst (strides self)) (fst (dilation_rate self)) = Inr x"
    and "conv_output_length w (snd (kernel_size self)) (padding self)
             (snd (strides self)) (snd (dilation_rate self)) = Inr y"
  shows "compute_output_shape self (b # h # w # rest) = Inr [b, x, y, Some (filters self)]"
  using assms by (simp add: compute_output_shape_def py_index_def)

section \<open>The output shape under valid and same padding\<close>

text \<open>
  When the padding of the layer is the lower-case name \<^verbatim>\<open>valid\<close>, with positive input
  extents, kernel extents, strides and dilations, \<^verbatim>\<open>compute_output_shape\<close> returns on
  each spatial axis
  \<open>floor((inputExtent - (kernelExtent - 1) * dilation - 1) / stride) + 1\<close>, keeps the batch
  entry and ends with the number of filters.
\<close>

lemma compute_output_shape_valid:
  assumes "padding self = ''valid''"
    and "kernel_size self = (kh, kw)" and "strides self = (sh, sw)"
    and "dilation_rate self = (dh, dw)"
    and "0 < h" and "0 < w" and "0 < kh" and "0 < kw"
    and "0 < sh" and "0 < sw" and "0 < dh" and "0 < dw"
  shows "compute_output_shape self [b, Some h, Some w, c] =
           Inr [b,
                Some (\<lfloor>real_of_int (h - (kh - 1) * dh - 1) / real_of_int sh\<rfloor> + 1),
                Some (\<lfloor>real_of_int (w - (kw - 1) * dw - 1) / real_of_int sw\<rfloor> + 1),
                Some (filters self)]"
proof -
  have x: "conv_output_length (Some h) (fst (kernel_size self)) (padding self)
             (fst (strides self)) (fst (dilation_rate self)) =
           Inr (Some (\<lfloor>real_of_int (h - (kh - 1) * dh - 1) / real_of_int sh\<rfloor> + 1))"
    unfolding floor_div using assms conv_output_length_valid [of sh h kh dh] by simp
  have y: "conv_output_length (Some w) (snd (kernel_size self)) (padding self)
             (snd (strides self)) (snd (dilation_rate self)) =
           Inr (Some (\<lfloor>real_of_int (w - (kw - 1) * dw - 1) / real_of_int sw\<rfloor> + 1))"
    unfolding floor_div using assms conv_output_length_valid [of sw w kw dw] by simp
  show ?thesis by (rule compute_output_shape_4d [OF x y])
qed

lemma compute_output_shape_valid_instance:
  "compute_output_shape (unbuilt_layer 32 (3, 3) (1, 1) ''valid'' (1, 1))
     [Some 1, Some 224, Some 224, Some 3] = Inr [Some 1, Some 222, Some 222, Some 32]"
  using compute_output_shape_valid
          [of "unbuilt_layer 32 (3, 3) (1, 1) ''valid'' (1, 1)" 3 3 1 1 1 1 224 224
              "Some 1" "Some 3"]
  by (simp add: unbuilt_layer_def)

text \<open>
  When the padding of the layer is the lower-case name \<^verbatim>\<open>same\<close>, with positive input
  extents and strides, \<^verbatim>\<open>compute_output_shape\<close> returns \<open>ceil(inputExtent / stride)\<close> on
  each spatial axis, whatever the kernel size and the dilation rate are.
\<close>

lemma compute_output_shape_same:
  assumes "padding self = ''same''" and "strides self = (sh, sw)"
    and "0 < h" and "0 < w" and "0 < sh" and "0 < sw"
  shows "compute_output_shape self [b, Some h, Some w, c] =
           Inr [b,
                Some \<lceil>real_of_int h / real_of_int sh\<rceil>,
                Some \<lceil>real_of_int w / real_of_int sw\<rceil>,
                Some (filters self)]"
proof -
  have x: "conv_output_length (Some h) (fst (kernel_size self)) (padding self)
             (fst (strides self)) (fst (dilation_rate self)) =
           Inr (Some \<lceil>real_of_int h / real_of_int sh\<rceil>)"
    using assms conv_output_length_same [of sh h] ceil_div [of sh h] by simp
  have y: "conv_output_length (Some w) (snd (kernel_size self)) (padding self)
             (snd (strides self)) (snd (dilation_rate self)) =
           Inr (Some \<lceil>real_of_int w / real_of_int sw\<rceil>)"
    using assms conv_output_length_same [of sw w] ceil_div [of sw w] by simp
  show ?thesis by (rule compute_output_shape_4d [OF x y])
qed

lemma compute_output_shape_same_instance:
  "compute_output_shape (unbuilt_layer 32 (3, 3) (1, 1) ''same'' (1, 1))
     [Some 1, Some 224, Some 224, Some 3] = Inr [Some 1, Some 224, Some 224, Some 32]"
  using compute_output_shape_same
          [of "unbuilt_layer 32 (3, 3) (1, 1) ''same'' (1, 1)" 1 1 224 224 "Some 1" "Some 3"]
  by (simp add: unbuilt_layer_def)

text \<open>
  Claim C2 fails on the code. The layer of the claim's scenario is the one that the
  constructor yields by default: 32 filters, a (3, 3) kernel, strides and dilation
  (1, 1), and the padding \<^verbatim>\<open>'VALID'\<close>, the only spelling in the source. The shape helper
  asserts one of its lower-case names, so on the input shape (1, 224, 224, 3)
  \<^verbatim>\<open>compute_output_shape\<close> raises \<^verbatim>\<open>AssertionError\<close>; with the padding respelled
  \<^verbatim>\<open>'valid'\<close> the same layer gives (1, 222, 222, 32).
\<close>

theorem compute_output_shape_default_padding:
  "\<exists>l. Conv2D_default keras_activations ChannelsLast = Inr (l :: int Conv2D)
       \<and> filters l = 32 \<and> kernel_size l = (3, 3) \<and> strides l = (1, 1)
       \<and> dilation_rate l = (1, 1) \<and> padding l = ''VALID''
       \<and> compute_output_shape l [Some 1, Some 224, Some 224, Some 3] = Inl AssertionError
       \<and> compute_output_shape (l\<lparr>padding := ''valid''\<rparr>)
            [Some 1, Some 224, Some 224, Some 3] = Inr [Some 1, Some 222, Some 222, Some 32]"
  by (simp add: Conv2D_default_def Conv2D_init_def default_activation_def activations_get_def
        keras_activations_def compute_output_shape_def py_index_def conv_output_length_def)

text \<open>
  Claim C3 fails on the code. With the padding \<^verbatim>\<open>'SAME'\<close>, the spelling that goes with
  the constructor's default \<^verbatim>\<open>'VALID'\<close>, the assertion of the shape helper fails and
  \<^verbatim>\<open>compute_output_shape\<close> raises \<^verbatim>\<open>AssertionError\<close> on the input shape
  (1, 224, 224, 3); with the padding respelled \<^verbatim>\<open>'same'\<close> the same layer gives
  (1, 224, 224, 32).
\<close>

theorem compute_output_shape_upper_case_same:
  "\<exists>l. Conv2D_init keras_activations ChannelsLast 32 (3, 3) (1, 1) ''SAME''
           default_activation (1, 1) 1 = Inr (l :: int Conv2D)
       \<and> compute_output_shape l [Some 1, Some 224, Some 224, Some 3] = Inl AssertionError
       \<and> compute_output_shape (l\<lparr>padding := ''same''\<rparr>)
            [Some 1, Some 224, Some 224, Some 3] = Inr [Some 1, Some 224, Some 224, Some 32]"
  by (simp add: Conv2D_init_def default_activation_def activations_get_def
        keras_activations_def compute_output_shape_def py_index_def conv_output_length_def)

text \<open>
  The same holds for every layer and every known input extent: a padding that is none
  of the four lower-case names of the shape helper makes \<^verbatim>\<open>compute_output_shape\<close> raise.
\<close>

lemma compute_output_shape_upper_case:
  assumes "padding self \<notin> set [''same'', ''valid'', ''full'', ''causal'']"
  shows "compute_output_shape self (b # Some h # rest) = Inl AssertionError"
  using assms by (simp add: compute_output_shape_def py_index_def conv_output_length_def)

text \<open>
  Claim C8, as the code has it. When the padding of the layer is the lower-case name
  \<^verbatim>\<open>valid\<close>, which the shape helper accepts, and the strides are positive, then where \<open>floor((inputExtent - (kernelExtent - 1) * dilation - 1) / stride) + 1\<close> is not
  positive on a spatial axis, \<^verbatim>\<open>compute_output_shape\<close> raises nothing: it returns the shape
  that carries the value of the formula, positive or not, on each spatial axis.
\<close>

theorem compute_output_shape_nonpositive:
  assumes "padding self = ''valid''"
    and "kernel_size self = (kh, kw)" and "strides self = (sh, sw)"
    and "dilation_rate self = (dh, dw)"
    and "0 < sh" and "0 < sw"
    and "vh = \<lfloor>real_of_int (h - (kh - 1) * dh - 1) / real_of_int sh\<rfloor> + 1"
    and "vw = \<lfloor>real_of_int (w - (kw - 1) * dw - 1) / real_of_int sw\<rfloor> + 1"
    and "vh \<le> 0 \<or> vw \<le> 0"
  shows "compute_output_shape self [b, Some h, Some w, c] =
           Inr [b, Some vh, Some vw, Some (filters self)]"
proof -
  have vh: "vh = (h - (kh - 1) * dh - 1) div sh + 1"
    using assms(7) unfolding floor_div .
  have vw: "vw = (w - (kw - 1) * dw - 1) div sw + 1"
    using assms(8) unfolding floor_div .
  have x: "conv_output_length (Some h) (fst (kernel_size self)) (padding self)
             (fst (strides self)) (fst (dilation_rate self)) = Inr (Some vh)"
    unfolding vh using assms(1-6) conv_output_length_valid [of sh h kh dh] by simp
  have y: "conv_output_length (Some w) (snd (kernel_size self)) (padding self)
             (snd (strides self)) (snd (dilation_rate self)) = Inr (Some vw)"
    unfolding vw using assms(1-6) conv_output_length_valid [of sw w kw dw] by simp
  show ?thesis by (rule compute_output_shape_4d [OF x y])
qed

theorem compute_output_shape_nonpositive_witness:
  "compute_output_shape (unbuilt_layer 32 (5, 5) (1, 1) ''valid'' (1, 1))
     [Some 1, Some 3, Some 7, Some 3] = Inr [Some 1, Some (- 1), Some 3, Some 32]"
proof -
  have "compute_output_shape (unbuilt_layer 32 (5, 5) (1, 1) ''valid'' (1, 1))
          [Some 1, Some 3, Some 7, Some 3] =
        Inr [Some 1, Some (- 1), Some 3,
             Some (filters (unbuilt_layer 32 (5, 5) (1, 1) ''valid'' (1, 1)))]"
    by (rule compute_output_shape_nonpositive
          [of "unbuilt_layer 32 (5, 5) (1, 1) ''valid'' (1, 1)" 5 5 1 1 1 1 "- 1" 3 3 7
              "Some 1" "Some 3"])
       (simp_all add: unbuilt_layer_def)
  then show ?thesis by (simp add: unbuilt_layer_def)
qed

text \<open>
  Against claim C8 as stated: a (3, 3) kernel on a (2, 2) input under \<^verbatim>\<open>valid\<close> padding
  makes the formula 0 on both axes, and \<^verbatim>\<open>compute_output_shape\<close> returns the shape
  (1, 0, 0, 32) instead of raising.
\<close>

theorem compute_output_shape_nonpositive_counterexample:
  "compute_output_shape (unbuilt_layer 32 (3, 3) (1, 1) ''valid'' (1, 1))
     [Some 1, Some 2, Some 2, Some 3] = Inr [Some 1, Some 0, Some 0, Some 32]
   \<and> \<lfloor>real_of_int (2 - (3 - 1) * 1 - 1) / real_of_int 1\<rfloor> + 1 = (0 :: int)"
  unfolding floor_div
  by (simp add: compute_output_shape_def py_index_def conv_output_length_def unbuilt_layer_def)

section \<open>The constructor and build\<close>

lemma Conv2D_init_unbuilt_layer:
  "Conv2D_init table ChannelsLast f ks st p ActNone dr 1 = Inr (unbuilt_layer f ks st p dr)"
  by (simp add: Conv2D_init_def unbuilt_layer_def)

lemma concrete_shape_known:
  assumes "list_all (\<lambda>n. 0 \<le> n) ns"
  shows "concrete_shape (map Some ns) = Inr (map nat ns)"
proof -
  have "\<not> list_ex (\<lambda>d. case d of None \<Rightarrow> False | Some n \<Rightarrow> n < 0) (map Some ns)"
    using assms by (induction ns) simp_all
  moreover have "\<not> list_ex (\<lambda>d. d = None) (map Some ns)"
    by (induction ns) simp_all
  moreover have "map (\<lambda>d. case d of None \<Rightarrow> 0 | Some n \<Rightarrow> nat n) (map Some ns) = map nat ns"
    by simp
  ultimately show ?thesis by (simp only: concrete_shape_def if_False)
qed

lemma build_unbuilt:
  assumes "py_index input_shape (channel_axis self) = Inr (Some c)" and "0 \<le> c"
    and "0 \<le> filters self" and "0 \<le> fst (kernel_size self)" and "0 \<le> snd (kernel_size self)"
    and "bias self = None" and "kernel self = None" and "weights self = []"
  shows "build rng self input_shape =
           Inr (self\<lparr>bias := Some (initial_value rng Zeros [nat (filters self)]),
                     kernel := Some (initial_value rng GlorotUniform
                        [nat (fst (kernel_size self)), nat (snd (kernel_size self)), nat c,
                         nat (filters self)]),
                     weights :=
                        [\<lparr>w_name = ''conv_bias'', w_shape = [nat (filters self)],
                          w_initializer = Zeros, w_trainable = True,
                          w_value = initial_value rng Zeros [nat (filters self)]\<rparr>,
                         \<lparr>w_name = ''kernel'',
                          w_shape = [nat (fst (kernel_size self)), nat (snd (kernel_size self)),
                                     nat c, nat (filters self)],
                          w_initializer = GlorotUniform, w_trainable = True,
                          w_value = initial_value rng GlorotUniform
                            [nat (fst (kernel_size self)), nat (snd (kernel_size self)), nat c,
                             nat (filters self)]\<rparr>],
                     built := True\<rparr>)"
proof -
  have b: "concrete_shape [Some (filters self)] = Inr [nat (filters self)]"
    using concrete_shape_known [of "[filters self]"] assms(3) by simp
  have k: "concrete_shape [Some (fst (kernel_size self)), Some (snd (kernel_size self)),
               Some c, Some (filters self)] =
             Inr [nat (fst (kernel_size self)), nat (snd (kernel_size self)), nat c,
                  nat (filters self)]"
    using concrete_shape_known
            [of "[fst (kernel_size self), snd (kernel_size self), c, filters self]"]
          assms(2-5)
    by simp
  show ?thesis
    using assms(1,6-8)
    by (simp add: build_def add_weight_def b k set_bias_def set_kernel_def track_def
          untrack_def Let_def)
qed

lemma build_built_layer:
  "build (\<lambda>i. 1) (unbuilt_layer 1 (3, 3) st p dr) [None, Some 5, Some 5, Some 1] =
     Inr (built_layer st p dr)"
proof -
  have "py_index [None, Some 5, Some 5, Some (1 :: int)]
          (channel_axis (unbuilt_layer 1 (3, 3) st p dr)) = Inr (Some 1)"
    by (simp add: py_index_def unbuilt_layer_def)
  from build_unbuilt [OF this, of "\<lambda>i. 1"] show ?thesis
    by (simp add: unbuilt_layer_def built_layer_def initial_value_def ones_kernel_def
          zero_bias_def map_replicate_const)
qed

text \<open>A second \<^verbatim>\<open>build\<close> of a built layer leaves it with its two weights.\<close>

lemma build_twice:
  "build (\<lambda>i. 1) (built_layer st p dr) [None, Some 5, Some 5, Some 1] =
     Inr (built_layer st p dr)"
proof -
  have b: "concrete_shape [Some (1 :: int)] = Inr [1]"
    using concrete_shape_known [of "[1]"] by simp
  have k: "concrete_shape [Some (3 :: int), Some 3, Some 1, Some 1] = Inr [3, 3, 1, 1]"
    using concrete_shape_known [of "[3, 3, 1, 1]"] by simp
  show ?thesis
    by (simp add: build_def add_weight_def b k set_bias_def set_kernel_def track_def
          untrack_def Let_def py_index_def unbuilt_layer_def built_layer_def
          initial_value_def ones_kernel_def zero_bias_def map_replicate_const)
qed

lemma call_built:
  assumes "kernel self = Some k" and "bias self = Some b"
  shows "call df self x =
           and_then (conv2d x k (1, 1) ''valid'' df (1, 1)) (\<lambda>y.
           and_then (bias_add y b df) (\<lambda>y.
           Inr (case activation self of None \<Rightarrow> y | Some f \<Rightarrow> f y)))"
proof -
  have "\<And>y. (case activation self of None \<Rightarrow> Inr y | Some f \<Rightarrow> Inr (f y)) =
          (Inr (case activation self of None \<Rightarrow> y | Some f \<Rightarrow> f y) :: error + 'a tensor)"
    by (simp split: option.split)
  then show ?thesis using assms by (simp add: call_def)
qed

lemma Conv2D_init_Inr:
  assumes "Conv2D_init table df f ks st p a dr bs = Inr self"
  shows "\<exists>act. self =
           \<lparr>filters = f, bias = None, kernel_size = ks, kernel = None, strides = st,
            padding = p, activation = act, dilation_rate = dr, batch_size = bs,
            channel_axis = (if df = ChannelsFirst then 0 else - 1), weights = [],
            built = False\<rparr>"
proof -
  define r where "r = (case a of ActNone \<Rightarrow> Inr None
                       | _ \<Rightarrow> and_then (activations_get table a) (\<lambda>f. Inr (Some f)))"
  show ?thesis
    using assms unfolding Conv2D_init_def r_def [symmetric] by (cases r) auto
qed


text \<open>
  Claim C5, as the code has it. The constructor validates none of \<^verbatim>\<open>filters\<close>,
  \<^verbatim>\<open>kernel_size\<close>, \<^verbatim>\<open>strides\<close>, \<^verbatim>\<open>dilation_rate\<close> and \<^verbatim>\<open>padding\<close>: whatever
  their values, it fails only when the activation is a name that does not resolve, and
  otherwise returns an unbuilt layer that stores the values unchanged and has no weights.
\<close>

theorem Conv2D_init_no_validation:
  "if \<exists>name. a = ActName name \<and> table name = None
   then Conv2D_init table df f ks st p a dr bs = Inl ValueError
   else \<exists>self. Conv2D_init table df f ks st p a dr bs = Inr self
          \<and> filters self = f \<and> kernel_size self = ks \<and> strides self = st
          \<and> padding self = p \<and> dilation_rate self = dr
          \<and> kernel self = None \<and> bias self = None \<and> weights self = [] \<and> \<not> built self"
  by (cases a) (auto simp: Conv2D_init_def activations_get_def split: option.splits)


theorem Conv2D_init_no_validation_witness:
  "\<exists>self. Conv2D_init keras_activations ChannelsLast 0 (0, - 3) (- 1, 0) ''bogus''
           (ActNone :: int activation_id) (0, - 2) 1 = Inr self
      \<and> filters self = 0 \<and> kernel_size self = (0, - 3) \<and> strides self = (- 1, 0)
      \<and> padding self = ''bogus'' \<and> dilation_rate self = (0, - 2)
      \<and> kernel self = None \<and> bias self = None \<and> weights self = [] \<and> \<not> built self"
  using Conv2D_init_no_validation
          [of "ActNone :: int activation_id" keras_activations ChannelsLast 0 "(0, - 3)"
              "(- 1, 0)" "''bogus''" "(0, - 2)" 1]
  by simp

text \<open>
  Against claim C5 as stated: zero filters, non-positive kernel, stride and dilation
  entries and an unknown padding are accepted.
\<close>

theorem Conv2D_init_no_validation_counterexample:
  "Conv2D_init keras_activations ChannelsLast 0 (0, - 3) (- 1, 0) ''bogus'' ActNone (0, - 2) 1 =
     Inr (unbuilt_layer 0 (0, - 3) (- 1, 0) ''bogus'' (0, - 2))"
  by (simp add: Conv2D_init_def unbuilt_layer_def)

text \<open>
  On an unbuilt layer with positive \<^verbatim>\<open>filters\<close> and kernel extents, for a positive entry
  \<open>c\<close> of the input shape at the channel axis of the layer, \<^verbatim>\<open>build\<close> registers exactly
  two weights: the bias of shape (filters,) with the zeros initializer, whose elements
  are all zero, and the kernel of shape (kh, kw, c, filters) with the Glorot uniform
  initializer, whose elements are the draws of that initializer.
\<close>

lemma build_allocates_kernel_and_bias:
  assumes "py_index input_shape (channel_axis self) = Inr (Some c)" and "0 < c"
    and "0 < filters self" and "kernel_size self = (kh, kw)" and "0 < kh" and "0 < kw"
    and "bias self = None" and "kernel self = None" and "weights self = []"
  shows "\<exists>self' k b. build rng self input_shape = Inr self'
           \<and> map w_name (weights self') = [''conv_bias'', ''kernel'']
           \<and> map w_shape (weights self') =
               [[nat (filters self)], [nat kh, nat kw, nat c, nat (filters self)]]
           \<and> map w_initializer (weights self') = [Zeros, GlorotUniform]
           \<and> map w_trainable (weights self') = [True, True]
           \<and> map w_value (weights self') = [b, k]
           \<and> kernel self' = Some k
           \<and> shape k = [nat kh, nat kw, nat c, nat (filters self)]
           \<and> elems k = map rng [0..<nat kh * nat kw * nat c * nat (filters self)]
           \<and> bias self' = Some b
           \<and> shape b = [nat (filters self)]
           \<and> elems b = replicate (nat (filters self)) 0
           \<and> built self'"
proof -
  have "0 \<le> c" "0 \<le> filters self" "0 \<le> fst (kernel_size self)" "0 \<le> snd (kernel_size self)"
    using assms by simp_all
  from build_unbuilt [OF assms(1) this assms(7-9), of rng] show ?thesis
    using assms(4) by (simp add: initial_value_def mult.assoc)
qed

lemma build_allocates_kernel_and_bias_instance:
  "\<exists>self' k b.
     build (\<lambda>i. 1) (unbuilt_layer 32 (3, 3) (1, 1) ''valid'' (1, 1))
       [None, Some 224, Some 224, Some 3] = Inr self'
     \<and> map w_shape (weights self') = [[32], [3, 3, 3, 32]]
     \<and> kernel self' = Some k \<and> shape k = [3, 3, 3, 32] \<and> length (elems k) = 864
     \<and> bias self' = Some b \<and> shape b = [32] \<and> elems b = replicate 32 0 \<and> built self'"
proof -
  have "py_index [None, Some 224, Some 224, Some 3]
          (channel_axis (unbuilt_layer 32 (3, 3) (1, 1) ''valid'' (1, 1))) = Inr (Some 3)"
    by (simp add: py_index_def unbuilt_layer_def)
  from build_allocates_kernel_and_bias [OF this, of 3 3 "\<lambda>i. 1"]
  show ?thesis by (simp add: unbuilt_layer_def) (metis length_map length_upt diff_zero)
qed

text \<open>
  Claim C7 fails on the code. A layer constructed under the channels-first layout and
  built on the input shape (8, 3, 224, 224), which has 3 input channels, gets a kernel
  of the shape (3, 3, 8, 32): \<^verbatim>\<open>build\<close> reads the batch size at the channel axis 0. The
  claim says (3, 3, 3, 32).
\<close>

theorem build_channels_first_kernel:
  "\<exists>l l' k. Conv2D_init keras_activations ChannelsFirst 32 (3, 3) (1, 1) ''valid'' ActNone
               (1, 1) 1 = Inr (l :: int Conv2D)
       \<and> build (\<lambda>i. 1) l [Some 8, Some 3, Some 224, Some 224] = Inr l'
       \<and> map w_name (weights l') = [''conv_bias'', ''kernel'']
       \<and> map w_shape (weights l') = [[32], [3, 3, 8, 32]]
       \<and> kernel l' = Some k \<and> shape k = [3, 3, 8, 32] \<and> shape k \<noteq> [3, 3, 3, 32]"
proof -
  define l :: "int Conv2D" where
    "l = \<lparr>filters = 32, bias = None, kernel_size = (3, 3), kernel = None, strides = (1, 1),
          padding = ''valid'', activation = None, dilation_rate = (1, 1), batch_size = 1,
          channel_axis = 0, weights = [], built = False\<rparr>"
  have i: "Conv2D_init keras_activations ChannelsFirst 32 (3, 3) (1, 1) ''valid'' ActNone
             (1, 1) 1 = Inr l"
    by (simp add: Conv2D_init_def l_def)
  have p: "py_index [Some 8, Some 3, Some 224, Some 224] (channel_axis l) = Inr (Some 8)"
    by (simp add: py_index_def l_def)
  have "build (\<lambda>i. 1) l [Some 8, Some 3, Some 224, Some 224] =
          Inr (l\<lparr>bias := Some (initial_value (\<lambda>i. 1) Zeros [32]),
                 kernel := Some (initial_value (\<lambda>i. 1) GlorotUniform [3, 3, 8, 32]),
                 weights :=
                   [\<lparr>w_name = ''conv_bias'', w_shape = [32], w_initializer = Zeros,
                     w_trainable = True, w_value = initial_value (\<lambda>i. 1) Zeros [32]\<rparr>,
                    \<lparr>w_name = ''kernel'', w_shape = [3, 3, 8, 32],
                     w_initializer = GlorotUniform, w_trainable = True,
                     w_value = initial_value (\<lambda>i. 1) GlorotUniform [3, 3, 8, 32]\<rparr>],
                 built := True\<rparr>)"
    using build_unbuilt [OF p, of "\<lambda>i. 1"] by (simp add: l_def)
  with i show ?thesis by (simp add: initial_value_def)
qed

text \<open>
  Claim C10. A layer constructed under the channels-first layout has channel axis 0, so
  for an input shape (batch, channels, height, width) \<^verbatim>\<open>build\<close> reads position 0, the
  batch size, and the kernel gets the shape (kh, kw, batch, filters), whatever the
  channel count is.
\<close>

theorem channels_first_reads_batch_axis:
  assumes "Conv2D_init table ChannelsFirst f (kh, kw) st p a dr bs = Inr self"
    and "0 < f" and "0 < kh" and "0 < kw" and "0 < b"
  shows "channel_axis self = 0
         \<and> py_index [Some b, Some c, Some h, Some w] (channel_axis self) = Inr (Some b)
         \<and> (\<exists>self' k. build rng self [Some b, Some c, Some h, Some w] = Inr self'
               \<and> kernel self' = Some k \<and> shape k = [nat kh, nat kw, nat b, nat f])"
proof -
  have f: "channel_axis self = 0" "filters self = f" "kernel_size self = (kh, kw)"
    and u: "bias self = None" "kernel self = None" "weights self = []"
    using Conv2D_init_Inr [OF assms(1)] by auto
  have i: "py_index [Some b, Some c, Some h, Some w] (channel_axis self) = Inr (Some b)"
    by (simp add: f py_index_def)
  have "0 \<le> b" "0 \<le> filters self" "0 \<le> fst (kernel_size self)" "0 \<le> snd (kernel_size self)"
    using assms f by simp_all
  from build_unbuilt [OF i this u, of rng] f i show ?thesis
    by (simp add: initial_value_def)
qed

theorem channels_first_reads_batch_axis_witness:
  "\<exists>self. Conv2D_init keras_activations ChannelsFirst 32 (3, 3) (1, 1) ''valid''
             (ActNone :: int activation_id) (1, 1) 1 = Inr self
      \<and> channel_axis self = 0
      \<and> py_index [Some (8 :: int), Some 3, Some 224, Some 224] (channel_axis self)
            = Inr (Some 8)
      \<and> (\<exists>self' k. build (\<lambda>i. 1) self [Some 8, Some 3, Some 224, Some 224] = Inr self'
            \<and> kernel self' = Some k \<and> shape k = [3, 3, 8, 32])"
proof -
  obtain self where s: "Conv2D_init keras_activations ChannelsFirst 32 (3, 3) (1, 1) ''valid''
             (ActNone :: int activation_id) (1, 1) 1 = Inr self"
    by (simp add: Conv2D_init_def)
  have "channel_axis self = 0
         \<and> py_index [Some (8 :: int), Some 3, Some 224, Some 224] (channel_axis self)
               = Inr (Some 8)
         \<and> (\<exists>self' k. build (\<lambda>i. 1) self [Some 8, Some 3, Some 224, Some 224] = Inr self'
               \<and> kernel self' = Some k \<and> shape k = [3, 3, 8, 32])"
    using channels_first_reads_batch_axis [OF s, of 8 3 224 224 "\<lambda>i. 1"]
    by (simp add: py_index_def)
  with s show ?thesis by blast
qed

section \<open>The forward pass\<close>

lemma and_then_Inr: "and_then m Inr = m"
  by (cases m) simp_all

lemma and_then_assoc: "and_then (and_then m f) g = and_then m (\<lambda>v. and_then (f v) g)"
  by (cases m) simp_all

lemma call_ramp:
  "call ChannelsLast (built_layer (1, 1) ''valid'' (1, 1)) (ramp 5) =
     Inr \<lparr>shape = [1, 3, 3, 1],
          elems = [- 54, - 63, - 72, - 99, - 108, - 117, - 144, - 153, - 162]\<rparr>"
  by code_simp

lemma raw_ramp:
  "and_then (conv2d (ramp 3) ones_kernel (1, 1) ''valid'' ChannelsLast (1, 1))
     (\<lambda>y. bias_add y zero_bias ChannelsLast) = Inr \<lparr>shape = [1, 1, 1, 1], elems = [- 36]\<rparr>"
  by code_simp

text \<open>A tensor that \<open>tabulate4\<close> builds has as many elements as its shape says.\<close>

lemma shape_tabulate4 [simp]: "shape (tabulate4 a b c d f) = [a, b, c, d]"
  by (simp add: tabulate4_def)

lemma length_concat_const:
  assumes "\<And>x. x \<in> set xs \<Longrightarrow> length (g x) = m"
  shows "length (concat (map g xs)) = length xs * m"
  using assms by (induction xs) simp_all

lemma length_elems_tabulate4: "length (elems (tabulate4 a b c d f)) = a * b * c * d"
  by (simp add: tabulate4_def length_concat_const mult.assoc)

text \<open>
  Claim C9. Two built layers with the same kernel, bias and activation give the same
  forward result on every input, whatever their strides, padding and dilation rate are:
  the forward pass is the backend's convolution with strides (1, 1), padding
  \<^verbatim>\<open>valid\<close> and dilation (1, 1), then the bias, then the activation.
\<close>

theorem call_uses_backend_defaults:
  assumes "kernel l1 = Some k" and "kernel l2 = Some k"
    and "bias l1 = Some b" and "bias l2 = Some b"
    and "activation l1 = activation l2"
  shows "call df l1 x = call df l2 x
         \<and> call df l1 x =
             and_then (conv2d x k (1, 1) ''valid'' df (1, 1)) (\<lambda>y.
             and_then (bias_add y b df) (\<lambda>y.
             Inr (case activation l1 of None \<Rightarrow> y | Some f \<Rightarrow> f y)))"
  using assms by (simp add: call_built)

theorem call_uses_backend_defaults_witness:
  "call ChannelsLast (built_layer (2, 2) ''same'' (3, 3)) (ramp 5) =
     call ChannelsLast (built_layer (1, 1) ''valid'' (1, 1)) (ramp 5)
   \<and> call ChannelsLast (built_layer (2, 2) ''same'' (3, 3)) (ramp 5) =
       Inr \<lparr>shape = [1, 3, 3, 1],
            elems = [- 54, - 63, - 72, - 99, - 108, - 117, - 144, - 153, - 162]\<rparr>"
proof -
  have "call ChannelsLast (built_layer (2, 2) ''same'' (3, 3)) (ramp 5) =
          call ChannelsLast (built_layer (1, 1) ''valid'' (1, 1)) (ramp 5)"
    using call_uses_backend_defaults
            [of "built_layer (2, 2) ''same'' (3, 3)" ones_kernel
                "built_layer (1, 1) ''valid'' (1, 1)" zero_bias ChannelsLast "ramp 5"]
    by (simp add: built_layer_def unbuilt_layer_def)
  then show ?thesis by (simp add: call_ramp)
qed

text \<open>
  Claim C6, as the code has it. The constructor succeeds for an activation of
  \<^verbatim>\<open>None\<close>, and a built layer without activation returns the convolution plus the bias.
  When no activation is supplied, the default \<^verbatim>\<open>'relu'\<close> is resolved in the table of
  activations and stored, and the forward pass applies it to the convolution plus bias.
\<close>

theorem forward_activation:
  assumes "kernel self = Some k" and "bias self = Some b" and "table ''relu'' = Some g"
  shows "(\<exists>l. Conv2D_init table df f ks st p ActNone dr bs = Inr l \<and> activation l = None)
         \<and> call df (self\<lparr>activation := None\<rparr>) x =
             and_then (conv2d x k (1, 1) ''valid'' df (1, 1)) (\<lambda>y. bias_add y b df)
         \<and> (\<exists>l. Conv2D_init table df f ks st p default_activation dr bs = Inr l
                \<and> activation l = Some g)
         \<and> call df (self\<lparr>activation := Some g\<rparr>) x =
             and_then (and_then (conv2d x k (1, 1) ''valid'' df (1, 1))
                         (\<lambda>y. bias_add y b df))
               (\<lambda>y. Inr (g y))"
proof -
  have a: "\<exists>l. Conv2D_init table df f ks st p ActNone dr bs = Inr l \<and> activation l = None"
    by (simp add: Conv2D_init_def)
  have b: "\<exists>l. Conv2D_init table df f ks st p default_activation dr bs = Inr l
             \<and> activation l = Some g"
    using assms(3) by (simp add: Conv2D_init_def default_activation_def activations_get_def)
  have c: "call df (self\<lparr>activation := None\<rparr>) x =
             and_then (conv2d x k (1, 1) ''valid'' df (1, 1)) (\<lambda>y. bias_add y b df)"
    using assms(1,2) by (simp add: call_built and_then_Inr)
  have d: "call df (self\<lparr>activation := Some g\<rparr>) x =
             and_then (and_then (conv2d x k (1, 1) ''valid'' df (1, 1))
                         (\<lambda>y. bias_add y b df))
               (\<lambda>y. Inr (g y))"
    using assms(1,2) by (simp add: call_built and_then_assoc)
  from a b c d show ?thesis by simp
qed

theorem forward_activation_witness:
  "(\<exists>l. Conv2D_init keras_activations ChannelsLast 1 (3, 3) (1, 1) ''valid''
          (ActNone :: int activation_id) (1, 1) 1 = Inr l \<and> activation l = None)
   \<and> call ChannelsLast ((built_layer (1, 1) ''valid'' (1, 1))\<lparr>activation := None\<rparr>) (ramp 3) =
       Inr \<lparr>shape = [1, 1, 1, 1], elems = [- 36]\<rparr>
   \<and> (\<exists>l. Conv2D_init keras_activations ChannelsLast 1 (3, 3) (1, 1) ''valid''
            (default_activation :: int activation_id) (1, 1) 1 = Inr l
          \<and> activation l = Some relu)
   \<and> call ChannelsLast ((built_layer (1, 1) ''valid'' (1, 1))\<lparr>activation := Some relu\<rparr>) (ramp 3) =
       Inr \<lparr>shape = [1, 1, 1, 1], elems = [0]\<rparr>"
proof -
  have k: "kernel (built_layer (1, 1) ''valid'' (1, 1)) = Some ones_kernel"
    and b: "bias (built_layer (1, 1) ''valid'' (1, 1)) = Some zero_bias"
    by (simp_all add: built_layer_def unbuilt_layer_def)
  have r: "(keras_activations :: string \<rightharpoonup> (int tensor \<Rightarrow> int tensor)) ''relu'' = Some relu"
    by (simp add: keras_activations_def)
  show ?thesis
    using forward_activation
            [of "built_layer (1, 1) ''valid'' (1, 1)" ones_kernel zero_bias keras_activations
                relu ChannelsLast 1 "(3, 3)" "(1, 1)" "''valid''" "(1, 1)" 1 "ramp 3",
             OF k b r]
    by (simp add: raw_ramp relu_def)
qed

text \<open>
  Against claim C6 as stated: a layer constructed without an activation argument, built
  on one channel, returns 0 on an input whose convolution plus bias is -36.
\<close>

theorem forward_activation_counterexample:
  "and_then (Conv2D_init keras_activations ChannelsLast 1 (3, 3) (1, 1) ''valid''
               default_activation (1, 1) 1)
     (\<lambda>l. and_then (build (\<lambda>i. 1) l [None, Some 3, Some 3, Some 1])
        (\<lambda>l. call ChannelsLast l (ramp 3))) = Inr \<lparr>shape = [1, 1, 1, 1], elems = [0]\<rparr>
   \<and> and_then (conv2d (ramp 3) ones_kernel (1, 1) ''valid'' ChannelsLast (1, 1))
       (\<lambda>y. bias_add y zero_bias ChannelsLast) = Inr \<lparr>shape = [1, 1, 1, 1], elems = [- 36]\<rparr>"
  by code_simp

text \<open>
  Claim C1 fails on the code. On a (1, 5, 5, 1) input and a (3, 3) kernel the forward
  output has the shape (1, 3, 3, 1) whatever the configuration, while
  \<^verbatim>\<open>compute_output_shape\<close> returns (1, 2, 2, 1) for strides (2, 2), (1, 5, 5, 1) for
  \<^verbatim>\<open>same\<close> padding and (1, 1, 1, 1) for dilation (2, 2).
\<close>

theorem forward_shape_ignores_configuration:
  "map_sum id shape (call ChannelsLast (built_layer (2, 2) ''valid'' (1, 1)) (ramp 5))
     = Inr [1, 3, 3, 1]
   \<and> compute_output_shape (built_layer (2, 2) ''valid'' (1, 1))
       [Some 1, Some 5, Some 5, Some 1] = Inr [Some 1, Some 2, Some 2, Some 1]
   \<and> map_sum id shape (call ChannelsLast (built_layer (1, 1) ''same'' (1, 1)) (ramp 5))
       = Inr [1, 3, 3, 1]
   \<and> compute_output_shape (built_layer (1, 1) ''same'' (1, 1))
       [Some 1, Some 5, Some 5, Some 1] = Inr [Some 1, Some 5, Some 5, Some 1]
   \<and> map_sum id shape (call ChannelsLast (built_layer (1, 1) ''valid'' (2, 2)) (ramp 5))
       = Inr [1, 3, 3, 1]
   \<and> compute_output_shape (built_layer (1, 1) ''valid'' (2, 2))
       [Some 1, Some 5, Some 5, Some 1] = Inr [Some 1, Some 1, Some 1, Some 1]"
  by code_simp

text \<open>
  With strides (1, 1), dilation (1, 1), \<^verbatim>\<open>valid\<close> padding, the channels-last layout and
  no activation, the shape of the forward output is the one that
  \<^verbatim>\<open>compute_output_shape\<close> returns.
\<close>

lemma forward_shape_default_configuration:
  assumes "kernel self = Some k" and "shape k = [kh, kw, c, f]"
    and "0 < kh" and "0 < kw" and "0 < c" and "0 < f"
    and "bias self = Some b" and "shape b = [f]" and "activation self = None"
    and "shape x = [n, h, w, c]" and "kh \<le> h" and "kw \<le> w"
    and "kernel_size self = (int kh, int kw)" and "filters self = int f"
    and "strides self = (1, 1)" and "dilation_rate self = (1, 1)" and "padding self = ''valid''"
  shows "\<exists>y. call ChannelsLast self x = Inr y
           \<and> shape y = [n, h - kh + 1, w - kw + 1, f]
           \<and> compute_output_shape self (map (\<lambda>d. Some (int d)) (shape x)) =
               Inr (map (\<lambda>d. Some (int d)) (shape y))"
proof -
  have "\<exists>y. call ChannelsLast self x = Inr y \<and> shape y = [n, h - kh + 1, w - kw + 1, f]"
    using assms
    by (simp add: call_def conv2d_def conv2d_channels_last_def window_out_def bias_add_def
          Let_def Suc_diff_le)
  moreover have "compute_output_shape self (map (\<lambda>d. Some (int d)) (shape x)) =
      Inr [Some (int n), Some (int (h - kh + 1)), Some (int (w - kw + 1)), Some (int f)]"
    using assms
    by (simp add: compute_output_shape_def py_index_def conv_output_length_def Let_def
          algebra_simps)
  ultimately show ?thesis by auto
qed

section \<open>The configuration dictionary\<close>

lemma get_config_entries:
  "get_config base self ''filters'' = Some (VInt (filters self))"
  "get_config base self ''kernel_size'' = Some (VPair (kernel_size self))"
  "get_config base self ''strides'' = Some (VPair (strides self))"
  "get_config base self ''padding'' = Some (VStr (padding self))"
  "get_config base self ''activation'' =
     Some (case activation self of None \<Rightarrow> VNone | Some f \<Rightarrow> VFunction f)"
  "get_config base self ''dilation_rate'' = Some (VPair (dilation_rate self))"
  "get_config base self ''batch_size'' = Some (VInt (batch_size self))"
  by (simp_all add: get_config_def map_add_def)

lemma from_config_get_config:
  "from_config table df (get_config base self) =
     Inr \<lparr>filters = filters self, bias = None, kernel_size = kernel_size self, kernel = None,
          strides = strides self, padding = padding self, activation = activation self,
          dilation_rate = dilation_rate self, batch_size = batch_size self,
          channel_axis = (if df = ChannelsFirst then 0 else - 1), weights = [],
          built = False\<rparr>"
  by (cases "activation self")
     (simp_all add: from_config_def get_config_entries arg_int_def arg_pair_def arg_str_def
        arg_activation_def Conv2D_init_def activations_get_def)

text \<open>
  Claim C4, as the code has it. \<^verbatim>\<open>get_config\<close> stores the configuration fields, the
  activation entry being the layer's activation attribute itself (the resolved function,
  or \<^verbatim>\<open>None\<close>) and not a name. \<^verbatim>\<open>from_config\<close> of that dictionary succeeds and yields an
  unbuilt layer without weights whose \<^verbatim>\<open>compute_output_shape\<close> agrees with the
  original layer's on every input shape.
\<close>

theorem config_round_trip:
  "get_config base self ''filters'' = Some (VInt (filters self))
   \<and> get_config base self ''kernel_size'' = Some (VPair (kernel_size self))
   \<and> get_config base self ''strides'' = Some (VPair (strides self))
   \<and> get_config base self ''padding'' = Some (VStr (padding self))
   \<and> get_config base self ''dilation_rate'' = Some (VPair (dilation_rate self))
   \<and> get_config base self ''activation'' =
        Some (case activation self of None \<Rightarrow> VNone | Some f \<Rightarrow> VFunction f)
   \<and> (\<exists>self'. from_config table df (get_config base self) = Inr self'
          \<and> \<not> built self' \<and> kernel self' = None \<and> bias self' = None \<and> weights self' = []
          \<and> activation self' = activation self
          \<and> (\<forall>input_shape. compute_output_shape self' input_shape =
                             compute_output_shape self input_shape))"
  by (simp add: get_config_entries from_config_get_config compute_output_shape_def)

text \<open>
  Against claim C4 as stated: for the layer \<^verbatim>\<open>Conv2D()\<close> the activation entry of the
  configuration is the function \<open>relu\<close>, and no name.
\<close>

theorem config_activation_counterexample:
  "\<exists>l. Conv2D_default keras_activations ChannelsLast = Inr l
       \<and> get_config Map.empty l ''activation'' = Some (VFunction (relu :: int tensor \<Rightarrow> int tensor))
       \<and> (\<forall>name. get_config Map.empty l ''activation'' \<noteq> Some (VStr name))"
  by (simp add: Conv2D_default_def Conv2D_init_def default_activation_def activations_get_def
        keras_activations_def get_config_entries)

end
